theory Spec2Isabelle
  imports Main
begin

section \<open>Image architecture check and copy (package images)\<close>

text \<open>
  A shallow embedding of the Go package \<^verbatim>\<open>images\<close>: the manifest probe
  \<^verbatim>\<open>ImageManifest\<close>, \<^verbatim>\<open>CopyImageOptions.Check\<close>, \<^verbatim>\<open>CopyImageOptions.Copy\<close>,
  \<^verbatim>\<open>getPolicyContext\<close> and the index model \<^verbatim>\<open>Index\<close> / \<^verbatim>\<open>NewIndex\<close>.

  Go strings are byte sequences and are modelled as \<^typ>\<open>string\<close>. A Go slice that may be
  \<^verbatim>\<open>nil\<close> is a \<^typ>\<open>'a list option\<close>: \<^term>\<open>None\<close> is the nil slice and \<^term>\<open>Some []\<close> is
  the empty slice that is not nil. An \<^verbatim>\<open>error\<close> result is a value of the sum type
  (\<^term>\<open>Inl\<close> carries the error) and a run-time panic is an outcome of its own.
\<close>

subsection \<open>Standard library: \<^verbatim>\<open>strings.Split\<close>\<close>

text \<open>
  \<^verbatim>\<open>strings.Index(s, sep)\<close>: the position of the first occurrence of \<^verbatim>\<open>sep\<close> in
  \<^verbatim>\<open>s\<close>; Go's \<^verbatim>\<open>-1\<close> is \<^term>\<open>None\<close>.
\<close>

fun strings_Index :: "string \<Rightarrow> string \<Rightarrow> nat option" where
  "strings_Index [] sep = (if sep = [] then Some 0 else None)"
| "strings_Index (c # cs) sep =
     (if take (length sep) (c # cs) = sep then Some 0
      else map_option Suc (strings_Index cs sep))"

lemma strings_Index_bound: "strings_Index s sep = Some m \<Longrightarrow> m + length sep \<le> length s"
proof (induction s arbitrary: m)
  case Nil
  then show ?case by (simp split: if_splits)
next
  case (Cons c cs)
  show ?case
  proof (cases "take (length sep) (c # cs) = sep")
    case True
    then have "length (take (length sep) (c # cs)) = length sep"
      by simp
    then have "length sep \<le> length (c # cs)"
      by simp
    with True Cons.prems show ?thesis by simp
  next
    case False
    with Cons.prems obtain k where "strings_Index cs sep = Some k" "m = Suc k"
      by auto
    with Cons.IH show ?thesis by fastforce
  qed
qed

text \<open>
  \<^verbatim>\<open>strings.Split(s, sep)\<close> is \<^verbatim>\<open>genSplit(s, sep, 0, -1)\<close>: with a separator that is
  not empty the loop cuts \<^verbatim>\<open>s\<close> at each occurrence that \<^verbatim>\<open>strings.Index\<close> finds, left to
  right, and the rest of the string is the last piece, so the result has at least one
  piece. With the empty separator Go explodes the string into its UTF-8 sequences, which
  on ASCII text are the single bytes; the only call in this package passes \<^verbatim>\<open>"//"\<close>.
\<close>

function genSplit :: "string \<Rightarrow> string \<Rightarrow> string list" where
  "genSplit s sep =
     (if sep = [] then map (\<lambda>c. [c]) s
      else (case strings_Index s sep of
              None \<Rightarrow> [s]
            | Some m \<Rightarrow> take m s # genSplit (drop (m + length sep) s) sep))"
  by pat_completeness auto
termination
proof (relation "measure (\<lambda>(s, sep). length s)")
  show "wf (measure (\<lambda>(s, sep). length s))" by simp
next
  fix s sep :: string and m :: nat
  assume "sep \<noteq> []" and "strings_Index s sep = Some m"
  then have "m + length sep \<le> length s" and "0 < length sep"
    by (simp_all add: strings_Index_bound)
  then have "length (drop (m + length sep) s) < length s"
    by (cases sep) simp_all
  then show "((drop (m + length sep) s, sep), (s, sep)) \<in> measure (\<lambda>(s, sep). length s)"
    by simp
qed

declare genSplit.simps [simp del]

definition strings_Split :: "string \<Rightarrow> string \<Rightarrow> string list" where
  "strings_Split s sep = genSplit s sep"

subsection \<open>Errors\<close>

text \<open>
  A Go \<^verbatim>\<open>error\<close> value. The two errors of \<^verbatim>\<open>encoding/json\<close> are kept apart from the
  errors that the image library (\<^verbatim>\<open>containers/image\<close>) reports; \<^verbatim>\<open>Check\<close> and \<^verbatim>\<open>Copy\<close>
  hand every error to their caller as they received it.
\<close>

datatype error =
    SyntaxError
  | UnmarshalTypeError string
  | LibraryError string

subsection \<open>The manifest probe: \<^verbatim>\<open>ImageManifest\<close>\<close>

record PlatformDetails =
  Architecture :: string
  OS :: string
  Variant :: string

record ManifestEntry =
  Digest :: string
  Entry_MediaType :: string
  Platform :: PlatformDetails
  Size :: int

record ImageManifest =
  Manifests :: "ManifestEntry list option"
  MediaType :: string
  SchemaVersion :: int

text \<open>The zero values that Go gives a declared variable of each struct type.\<close>

definition zero_PlatformDetails :: PlatformDetails where
  "zero_PlatformDetails = \<lparr>Architecture = [], OS = [], Variant = []\<rparr>"

definition zero_ManifestEntry :: ManifestEntry where
  "zero_ManifestEntry =
     \<lparr>Digest = [], Entry_MediaType = [], Platform = zero_PlatformDetails, Size = 0\<rparr>"

definition zero_ImageManifest :: ImageManifest where
  "zero_ImageManifest = \<lparr>Manifests = None, MediaType = [], SchemaVersion = 0\<rparr>"

subsection \<open>Standard library: \<^verbatim>\<open>encoding/json\<close>\<close>

text \<open>
  A JSON document after the syntax layer of the decoder (the scanner and the unquoting of
  strings): member names and strings are the unquoted texts, the members of an object
  are kept in document order with their duplicates, and a number is its literal.
\<close>

datatype json =
    JNull
  | JBool bool
  | JNumber string
  | JString string
  | JArray "json list"
  | JObject "(string \<times> json) list"

text \<open>
  \<^verbatim>\<open>strconv.ParseInt(s, 10, 64)\<close>, which the decoder applies to a number literal that
  goes to an \<^verbatim>\<open>int\<close> field: an optional sign, then decimal digits only, and a value
  from \<open>-9223372036854775808\<close> to \<open>9223372036854775807\<close> (64 bits).
\<close>

definition digit :: "char \<Rightarrow> int option" where
  "digit c = map_of
     [(CHR ''0'', 0), (CHR ''1'', 1), (CHR ''2'', 2), (CHR ''3'', 3), (CHR ''4'', 4),
      (CHR ''5'', 5), (CHR ''6'', 6), (CHR ''7'', 7), (CHR ''8'', 8), (CHR ''9'', 9)] c"

fun ParseUint :: "string \<Rightarrow> int \<Rightarrow> int option" where
  "ParseUint [] n = Some n"
| "ParseUint (c # cs) n =
     (case digit c of None \<Rightarrow> None | Some d \<Rightarrow> ParseUint cs (10 * n + d))"

definition ParseInt :: "string \<Rightarrow> int option" where
  "ParseInt s =
     (case s of
        [] \<Rightarrow> None
      | c # cs \<Rightarrow>
          (let neg = (c = CHR ''-'');
               ds = (if c = CHR ''+'' \<or> c = CHR ''-'' then cs else s)
           in if ds = [] then None
              else (case ParseUint ds 0 of
                      None \<Rightarrow> None
                    | Some un \<Rightarrow>
                        if \<not> neg \<and> 9223372036854775808 \<le> un then None
                        else if neg \<and> 9223372036854775808 < un then None
                        else Some (if neg then - un else un))))"

text \<open>
  The decoder finds the struct field of an object member by the member's name: the field
  whose JSON name is exactly the member's name and, when there is none, the first field
  whose folded name equals the folded name of the member. Folding maps every rune to the
  least rune of its simple case-folding orbit, so an ASCII letter goes to its capital,
  and the only runes outside ASCII that fold to an ASCII letter are U+017F (to \<open>S\<close>) and
  U+212A (to \<open>K\<close>), here in their UTF-8 bytes. Every field name of this package is
  ASCII; any other rune is left as it is, which keeps it different from every ASCII
  letter as its fold in Go is.
\<close>

definition toUpper :: "char \<Rightarrow> char" where
  "toUpper c =
     (case map_of (zip ''abcdefghijklmnopqrstuvwxyz'' ''ABCDEFGHIJKLMNOPQRSTUVWXYZ'') c of
        None \<Rightarrow> c
      | Some u \<Rightarrow> u)"

fun foldName :: "string \<Rightarrow> string" where
  "foldName (c1 # c2 # c3 # cs) =
     (if c1 = CHR 0xC5 \<and> c2 = CHR 0xBF then CHR ''S'' # foldName (c3 # cs)
      else if c1 = CHR 0xE2 \<and> c2 = CHR 0x84 \<and> c3 = CHR 0xAA then CHR ''K'' # foldName cs
      else toUpper c1 # foldName (c2 # c3 # cs))"
| "foldName [c1, c2] =
     (if c1 = CHR 0xC5 \<and> c2 = CHR 0xBF then [CHR ''S''] else [toUpper c1, toUpper c2])"
| "foldName [c1] = [toUpper c1]"
| "foldName [] = []"

definition fieldByName :: "string list \<Rightarrow> string \<Rightarrow> string option" where
  "fieldByName names key =
     (if key \<in> set names then Some key
      else find (\<lambda>f. foldName f = foldName key) names)"

text \<open>
  Storing a JSON value into a field that holds \<open>cur\<close>. \<^verbatim>\<open>null\<close> leaves a string, an
  integer and a struct as they are and makes a slice nil; a value of the wrong kind is
  an \<^verbatim>\<open>UnmarshalTypeError\<close>. The decoder goes on after such an error and reports the
  first one when it is done; its caller here drops the struct whenever an error comes
  back, so the model stops at the first error.
\<close>

definition valueKind :: "json \<Rightarrow> string" where
  "valueKind j =
     (case j of
        JNull \<Rightarrow> ''null''
      | JBool b \<Rightarrow> ''bool''
      | JNumber n \<Rightarrow> ''number''
      | JString s \<Rightarrow> ''string''
      | JArray vs \<Rightarrow> ''array''
      | JObject kvs \<Rightarrow> ''object'')"

definition store_string :: "json \<Rightarrow> string \<Rightarrow> error + string" where
  "store_string j cur =
     (case j of
        JNull \<Rightarrow> Inr cur
      | JString s \<Rightarrow> Inr s
      | _ \<Rightarrow> Inl (UnmarshalTypeError (valueKind j)))"

definition store_int :: "json \<Rightarrow> int \<Rightarrow> error + int" where
  "store_int j cur =
     (case j of
        JNull \<Rightarrow> Inr cur
      | JNumber n \<Rightarrow>
          (case ParseInt n of
             None \<Rightarrow> Inl (UnmarshalTypeError (''number '' @ n))
           | Some i \<Rightarrow> Inr i)
      | _ \<Rightarrow> Inl (UnmarshalTypeError (valueKind j)))"

text \<open>
  An object into a struct: the members in document order, each stored into the field it
  names, a member that names no field skipped. \<open>store f v x\<close> stores \<open>v\<close> into the
  field named \<open>f\<close> of \<open>x\<close>.
\<close>

fun object :: "string list \<Rightarrow> (string \<Rightarrow> json \<Rightarrow> 'a \<Rightarrow> error + 'a) \<Rightarrow>
    (string \<times> json) list \<Rightarrow> 'a \<Rightarrow> error + 'a" where
  "object names store [] x = Inr x"
| "object names store ((k, v) # kvs) x =
     (case fieldByName names k of
        None \<Rightarrow> object names store kvs x
      | Some f \<Rightarrow>
          (case store f v x of
             Inl e \<Rightarrow> Inl e
           | Inr x' \<Rightarrow> object names store kvs x'))"

definition store_struct :: "string list \<Rightarrow> (string \<Rightarrow> json \<Rightarrow> 'a \<Rightarrow> error + 'a) \<Rightarrow>
    json \<Rightarrow> 'a \<Rightarrow> error + 'a" where
  "store_struct names store j cur =
     (case j of
        JNull \<Rightarrow> Inr cur
      | JObject kvs \<Rightarrow> object names store kvs cur
      | _ \<Rightarrow> Inl (UnmarshalTypeError (valueKind j)))"

text \<open>The three struct types of the probe, by their \<^verbatim>\<open>json\<close> tags.\<close>

definition PlatformDetails_fields :: "string list" where
  "PlatformDetails_fields = [''architecture'', ''os'', ''variant'']"

definition PlatformDetails_store ::
    "string \<Rightarrow> json \<Rightarrow> PlatformDetails \<Rightarrow> error + PlatformDetails" where
  "PlatformDetails_store f v p =
     (if f = ''architecture'' then
        (case store_string v (Architecture p) of
           Inl e \<Rightarrow> Inl e | Inr s \<Rightarrow> Inr (p\<lparr>Architecture := s\<rparr>))
      else if f = ''os'' then
        (case store_string v (OS p) of
           Inl e \<Rightarrow> Inl e | Inr s \<Rightarrow> Inr (p\<lparr>OS := s\<rparr>))
      else
        (case store_string v (Variant p) of
           Inl e \<Rightarrow> Inl e | Inr s \<Rightarrow> Inr (p\<lparr>Variant := s\<rparr>)))"

definition ManifestEntry_fields :: "string list" where
  "ManifestEntry_fields = [''digest'', ''mediaType'', ''platform'', ''size'']"

definition ManifestEntry_store ::
    "string \<Rightarrow> json \<Rightarrow> ManifestEntry \<Rightarrow> error + ManifestEntry" where
  "ManifestEntry_store f v m =
     (if f = ''digest'' then
        (case store_string v (Digest m) of
           Inl e \<Rightarrow> Inl e | Inr s \<Rightarrow> Inr (m\<lparr>Digest := s\<rparr>))
      else if f = ''mediaType'' then
        (case store_string v (Entry_MediaType m) of
           Inl e \<Rightarrow> Inl e | Inr s \<Rightarrow> Inr (m\<lparr>Entry_MediaType := s\<rparr>))
      else if f = ''platform'' then
        (case store_struct PlatformDetails_fields PlatformDetails_store v (Platform m) of
           Inl e \<Rightarrow> Inl e | Inr p \<Rightarrow> Inr (m\<lparr>Platform := p\<rparr>))
      else
        (case store_int v (Size m) of
           Inl e \<Rightarrow> Inl e | Inr i \<Rightarrow> Inr (m\<lparr>Size := i\<rparr>)))"

text \<open>
  An array into the slice \<^verbatim>\<open>[]ManifestEntry\<close>: by the package documentation the
  decoder resets the slice to length zero and appends each element, so the slice that
  results is never nil, also for the empty array. (For a document that repeats the
  member the implementation decodes into the elements that the slice already has; this
  touches the fields of the entries only, and \<^verbatim>\<open>Check\<close> reads nothing of the slice but
  whether it is nil.)
\<close>

fun array_ManifestEntry :: "json list \<Rightarrow> error + ManifestEntry list" where
  "array_ManifestEntry [] = Inr []"
| "array_ManifestEntry (v # vs) =
     (case store_struct ManifestEntry_fields ManifestEntry_store v zero_ManifestEntry of
        Inl e \<Rightarrow> Inl e
      | Inr x \<Rightarrow>
          (case array_ManifestEntry vs of
             Inl e \<Rightarrow> Inl e
           | Inr xs \<Rightarrow> Inr (x # xs)))"

definition store_slice_ManifestEntry ::
    "json \<Rightarrow> ManifestEntry list option \<Rightarrow> error + ManifestEntry list option" where
  "store_slice_ManifestEntry j cur =
     (case j of
        JNull \<Rightarrow> Inr None
      | JArray vs \<Rightarrow>
          (case array_ManifestEntry vs of
             Inl e \<Rightarrow> Inl e
           | Inr xs \<Rightarrow> Inr (Some xs))
      | _ \<Rightarrow> Inl (UnmarshalTypeError (valueKind j)))"

definition ImageManifest_fields :: "string list" where
  "ImageManifest_fields = [''manifests'', ''mediaType'', ''schemaVersion'']"

definition ImageManifest_store ::
    "string \<Rightarrow> json \<Rightarrow> ImageManifest \<Rightarrow> error + ImageManifest" where
  "ImageManifest_store f v m =
     (if f = ''manifests'' then
        (case store_slice_ManifestEntry v (Manifests m) of
           Inl e \<Rightarrow> Inl e | Inr xs \<Rightarrow> Inr (m\<lparr>Manifests := xs\<rparr>))
      else if f = ''mediaType'' then
        (case store_string v (MediaType m) of
           Inl e \<Rightarrow> Inl e | Inr s \<Rightarrow> Inr (m\<lparr>MediaType := s\<rparr>))
      else
        (case store_int v (SchemaVersion m) of
           Inl e \<Rightarrow> Inl e | Inr i \<Rightarrow> Inr (m\<lparr>SchemaVersion := i\<rparr>)))"

text \<open>
  \<^verbatim>\<open>var manifest ImageManifest; json.Unmarshal(data, &manifest)\<close> on a document that
  passed the syntax layer.
\<close>

definition decode_ImageManifest :: "json \<Rightarrow> error + ImageManifest" where
  "decode_ImageManifest j =
     store_struct ImageManifest_fields ImageManifest_store j zero_ImageManifest"

text \<open>
  The syntax layer itself (which byte sequences are JSON texts, and the document each
  denotes) is a parameter \<open>scanner\<close>: \<^term>\<open>None\<close> is a \<^verbatim>\<open>SyntaxError\<close>.
\<close>

definition json_Unmarshal :: "(string \<Rightarrow> json option) \<Rightarrow> string \<Rightarrow> error + ImageManifest" where
  "json_Unmarshal scanner data =
     (case scanner data of
        None \<Rightarrow> Inl SyntaxError
      | Some j \<Rightarrow> decode_ImageManifest j)"

subsection \<open>Image library: signature policies\<close>

text \<open>
  The policy types of \<^verbatim>\<open>containers/image/v5/signature\<close>. A policy holds the default
  requirements and the requirements of single transports and scopes; a policy context
  holds the policy it was made from. An image is allowed when the requirements that
  apply to it are not empty and each of them allows it: the accept-anything requirement
  allows every image, the reject requirement none, and the signing requirements ask a
  verifier, here the parameter \<open>verify\<close>.
\<close>

datatype PolicyRequirement =
    PRInsecureAcceptAnything
  | PRReject
  | PRSignedBy string
  | PRSignedBaseLayer string
  | PRSigstoreSigned string

record Policy =
  Default :: "PolicyRequirement list"
  Transports :: "string \<rightharpoonup> (string \<rightharpoonup> PolicyRequirement list)"

record PolicyContext =
  Policy :: Policy

definition NewPRInsecureAcceptAnything :: PolicyRequirement where
  "NewPRInsecureAcceptAnything = PRInsecureAcceptAnything"

text \<open>
  \<open>scopes\<close> are the policy identity of the image reference and its parent namespaces,
  the most specific first; the empty scope is the default of the transport.
\<close>

definition requirementsForImageRef ::
    "PolicyContext \<Rightarrow> string \<Rightarrow> string list \<Rightarrow> PolicyRequirement list" where
  "requirementsForImageRef pc transport scopes =
     (case Transports (Policy pc) transport of
        None \<Rightarrow> Default (Policy pc)
      | Some transportScopes \<Rightarrow>
          (case List.map_filter transportScopes (scopes @ [[]]) of
             [] \<Rightarrow> Default (Policy pc)
           | req # _ \<Rightarrow> req))"

definition isRunningImageAllowed ::
    "(PolicyRequirement \<Rightarrow> 'image \<Rightarrow> bool) \<Rightarrow> PolicyRequirement \<Rightarrow> 'image \<Rightarrow> bool" where
  "isRunningImageAllowed verify req img =
     (case req of
        PRInsecureAcceptAnything \<Rightarrow> True
      | PRReject \<Rightarrow> False
      | _ \<Rightarrow> verify req img)"

definition IsRunningImageAllowed ::
    "(PolicyRequirement \<Rightarrow> 'image \<Rightarrow> bool) \<Rightarrow> PolicyContext \<Rightarrow> string \<Rightarrow> string list \<Rightarrow>
     'image \<Rightarrow> bool" where
  "IsRunningImageAllowed verify pc transport scopes img =
     (let reqs = requirementsForImageRef pc transport scopes
      in reqs \<noteq> [] \<and> list_all (\<lambda>req. isRunningImageAllowed verify req img) reqs)"

subsection \<open>The endpoints and the image library they use\<close>

text \<open>
  \<^verbatim>\<open>srcImageOptions\<close>, \<^verbatim>\<open>destImageOptions\<close> and \<^verbatim>\<open>dockerImageOptions\<close> are declared in
  another file of the package; these are the fields that \<^verbatim>\<open>Check\<close> and \<^verbatim>\<open>Copy\<close>
  read. Both pointers of a \<^verbatim>\<open>CopyImageOptions\<close> are taken to be set.
\<close>

record dockerImageOptions =
  arch :: string

record srcImageOptions =
  imageName :: string

record destImageOptions =
  imageName :: string
  dockerImage :: dockerImageOptions

record CopyImageOptions =
  srcImage :: srcImageOptions
  destImage :: destImageOptions

text \<open>\<^verbatim>\<open>types.ImageInspectInfo\<close>: the field that \<^verbatim>\<open>Check\<close> reads.\<close>

record ImageInspectInfo =
  Architecture :: string

datatype Writer = os_Stdout

record 'ctx Options =
  ReportWriter :: Writer
  SourceCtx :: 'ctx
  DestinationCtx :: 'ctx

text \<open>
  What is outside the package is a parameter: the operations of the image library that
  parse a locator or talk to a registry, the syntax layer of the JSON decoder, and the
  two \<^verbatim>\<open>systemContext\<close> methods of the endpoints. \<open>'ref\<close> is an image reference,
  \<open>'ctx\<close> a system context, \<open>'src\<close> an image source and \<open>'img\<close> an image.
  \<^verbatim>\<open>signature.NewPolicyContext\<close> either fails or returns a context that holds the
  policy it was given.
\<close>

record ('ref, 'ctx, 'src, 'img) library =
  ParseImageName :: "string \<Rightarrow> error + 'ref"
  NewImageSource :: "'ref \<Rightarrow> 'ctx \<Rightarrow> error + 'src"
  GetManifest :: "'src \<Rightarrow> error + string \<times> string"
  scan :: "string \<Rightarrow> json option"
  ParseReference :: "string \<Rightarrow> error + 'ref"
  NewImage :: "'ref \<Rightarrow> 'ctx \<Rightarrow> error + 'img"
  Inspect :: "'img \<Rightarrow> error + ImageInspectInfo"
  NewPolicyContext_error :: "Policy \<Rightarrow> error option"
  copy_Image :: "PolicyContext \<Rightarrow> 'ref \<Rightarrow> 'ref \<Rightarrow> 'ctx Options \<Rightarrow> error option"
  src_systemContext :: "srcImageOptions \<Rightarrow> 'ctx"
  dest_systemContext :: "destImageOptions \<Rightarrow> 'ctx"

definition NewPolicyContext ::
    "('ref, 'ctx, 'src, 'img) library \<Rightarrow> Policy \<Rightarrow> error + PolicyContext" where
  "NewPolicyContext lib policy =
     (case NewPolicyContext_error lib policy of
        Some err \<Rightarrow> Inl err
      | None \<Rightarrow> Inr \<lparr>Policy = policy\<rparr>)"

text \<open>
  The calls that a run makes on the library, in the order it makes them. The package
  never closes an image source; the call is here so that this can be said.
\<close>

datatype ('ref, 'src, 'img) call =
    Call_ParseImageName string
  | Call_NewImageSource 'ref
  | Call_GetManifest 'src
  | Call_ImageSource_Close 'src
  | Call_Unmarshal string
  | Call_ParseReference string
  | Call_NewImage 'ref
  | Call_Inspect 'img
  | Call_Image_Close 'img
  | Call_NewPolicyContext Policy
  | Call_Destroy PolicyContext
  | Call_copy_Image PolicyContext 'ref 'ref

text \<open>
  \<open>called e run\<close> is a call followed by the rest of the run; \<open>deferred e run\<close> is a
  run under \<^verbatim>\<open>defer\<close>: the deferred call is made when the run is over, whatever it
  returns.
\<close>

definition called :: "'e \<Rightarrow> 'r \<times> 'e list \<Rightarrow> 'r \<times> 'e list" where
  "called e run = (fst run, e # snd run)"

definition deferred :: "'e \<Rightarrow> 'r \<times> 'e list \<Rightarrow> 'r \<times> 'e list" where
  "deferred e run = (fst run, snd run @ [e])"

subsection \<open>\<^verbatim>\<open>Check\<close>\<close>

text \<open>
  What a call of \<^verbatim>\<open>Check\<close> comes to: it returns its pair, or it panics (the index
  expression \<^verbatim>\<open>[1]\<close> on a slice that is too short).
\<close>

datatype check_result = Returned bool "error option" | Panicked

datatype shape = FlatShape | IndexShape

text \<open>The test \<^verbatim>\<open>manifest.Manifests == nil\<close> that picks the branch.\<close>

definition shapeOf :: "ImageManifest \<Rightarrow> shape" where
  "shapeOf manifest =
     (if ImageManifest.Manifests manifest = None then FlatShape else IndexShape)"

text \<open>The body of \<^verbatim>\<open>Check\<close> after \<^verbatim>\<open>defer img.Close()\<close>.\<close>

definition Check_inspect ::
    "('ref, 'ctx, 'src, 'img) library \<Rightarrow> CopyImageOptions \<Rightarrow> 'img \<Rightarrow>
     check_result \<times> ('ref, 'src, 'img) call list" where
  "Check_inspect lib c img =
     called (Call_Inspect img)
       (case Inspect lib img of
          Inl err \<Rightarrow> (Returned False (Some err), [])
        | Inr inspectedImage \<Rightarrow>
            if ImageInspectInfo.Architecture inspectedImage \<noteq> arch (dockerImage (destImage c))
            then (Returned False None, [])
            else (Returned True None, []))"

text \<open>The branch of \<^verbatim>\<open>Check\<close> for a manifest without a \<^verbatim>\<open>manifests\<close> list.\<close>

definition Check_flat ::
    "('ref, 'ctx, 'src, 'img) library \<Rightarrow> CopyImageOptions \<Rightarrow> 'ctx \<Rightarrow>
     check_result \<times> ('ref, 'src, 'img) call list" where
  "Check_flat lib c srcContext =
     (let parts = strings_Split (srcImageOptions.imageName (srcImage c)) ''//''
      in if \<not> 1 < length parts then (Panicked, [])
         else
           called (Call_ParseReference (''//'' @ parts ! 1))
             (case ParseReference lib (''//'' @ parts ! 1) of
                Inl err \<Rightarrow> (Returned False (Some err), [])
              | Inr ref \<Rightarrow>
                  called (Call_NewImage ref)
                    (case NewImage lib ref srcContext of
                       Inl err \<Rightarrow> (Returned False (Some err), [])
                     | Inr img \<Rightarrow>
                         deferred (Call_Image_Close img) (Check_inspect lib c img))))"

definition Check ::
    "('ref, 'ctx, 'src, 'img) library \<Rightarrow> CopyImageOptions \<Rightarrow>
     check_result \<times> ('ref, 'src, 'img) call list" where
  "Check lib c =
     (let srcContext = src_systemContext lib (srcImage c)
      in called (Call_ParseImageName (srcImageOptions.imageName (srcImage c)))
           (case ParseImageName lib (srcImageOptions.imageName (srcImage c)) of
              Inl err \<Rightarrow> (Returned False (Some err), [])
            | Inr srcRef \<Rightarrow>
                called (Call_NewImageSource srcRef)
                  (case NewImageSource lib srcRef srcContext of
                     Inl err \<Rightarrow> (Returned False (Some err), [])
                   | Inr src \<Rightarrow>
                       called (Call_GetManifest src)
                         (case GetManifest lib src of
                            Inl err \<Rightarrow> (Returned False (Some err), [])
                          | Inr (manifestData, mimeType) \<Rightarrow>
                              called (Call_Unmarshal manifestData)
                                (case json_Unmarshal (scan lib) manifestData of
                                   Inl err \<Rightarrow> (Returned False (Some err), [])
                                 | Inr manifest \<Rightarrow>
                                     (case shapeOf manifest of
                                        FlatShape \<Rightarrow> Check_flat lib c srcContext
                                      | IndexShape \<Rightarrow> (Returned True None, [])))))))"

subsection \<open>\<^verbatim>\<open>Copy\<close> and \<^verbatim>\<open>getPolicyContext\<close>\<close>

definition getPolicyContext ::
    "('ref, 'ctx, 'src, 'img) library \<Rightarrow>
     (error + PolicyContext) \<times> ('ref, 'src, 'img) call list" where
  "getPolicyContext lib =
     (let policy = \<lparr>Default = [NewPRInsecureAcceptAnything], Transports = Map.empty\<rparr>
      in called (Call_NewPolicyContext policy) (NewPolicyContext lib policy, []))"

text \<open>The body of \<^verbatim>\<open>Copy\<close> after \<^verbatim>\<open>defer policyContext.Destroy()\<close>.\<close>

definition Copy_body ::
    "('ref, 'ctx, 'src, 'img) library \<Rightarrow> CopyImageOptions \<Rightarrow> PolicyContext \<Rightarrow>
     error option \<times> ('ref, 'src, 'img) call list" where
  "Copy_body lib c policyContext =
     called (Call_ParseImageName (srcImageOptions.imageName (srcImage c)))
       (case ParseImageName lib (srcImageOptions.imageName (srcImage c)) of
          Inl err \<Rightarrow> (Some err, [])
        | Inr srcRef \<Rightarrow>
            called (Call_ParseImageName (destImageOptions.imageName (destImage c)))
              (case ParseImageName lib (destImageOptions.imageName (destImage c)) of
                 Inl err \<Rightarrow> (Some err, [])
               | Inr destRef \<Rightarrow>
                   (let srcContext = src_systemContext lib (srcImage c);
                        destContext = dest_systemContext lib (destImage c)
                    in called (Call_copy_Image policyContext destRef srcRef)
                         (case copy_Image lib policyContext destRef srcRef
                                 \<lparr>ReportWriter = os_Stdout, SourceCtx = srcContext,
                                  DestinationCtx = destContext\<rparr> of
                            Some err \<Rightarrow> (Some err, [])
                          | None \<Rightarrow> (None, [])))))"

definition Copy ::
    "('ref, 'ctx, 'src, 'img) library \<Rightarrow> CopyImageOptions \<Rightarrow>
     error option \<times> ('ref, 'src, 'img) call list" where
  "Copy lib c =
     (case getPolicyContext lib of
        (Inl err, calls) \<Rightarrow> (Some err, calls)
      | (Inr policyContext, calls) \<Rightarrow>
          (case deferred (Call_Destroy policyContext) (Copy_body lib c policyContext) of
             (r, calls') \<Rightarrow> (r, calls @ calls')))"

subsection \<open>The index model\<close>

record annotations =
  RefName :: string

record Manifest =
  Annotations :: annotations

record Index =
  Manifests :: "Manifest list option"

definition NewIndex :: Index where
  "NewIndex = \<lparr>Manifests = Some []\<rparr>"

text \<open>
  Populating an index: \<^verbatim>\<open>index.Manifests = append(index.Manifests, ms...)\<close>. Appending
  to the nil slice gives a slice that is not nil as soon as one element is appended.
\<close>

definition append_Manifests :: "Index \<Rightarrow> Manifest list \<Rightarrow> Index" where
  "append_Manifests index ms =
     index\<lparr>Index.Manifests :=
       (case Index.Manifests index of
          None \<Rightarrow> (if ms = [] then None else Some ms)
        | Some xs \<Rightarrow> Some (xs @ ms))\<rparr>"

text \<open>
  \<^verbatim>\<open>json.Marshal\<close> of an \<^verbatim>\<open>Index\<close>, as a document: a field without a \<^verbatim>\<open>json\<close> tag
  is a member under its Go name, and a nil slice is \<^verbatim>\<open>null\<close>.
\<close>

definition marshal_annotations :: "annotations \<Rightarrow> json" where
  "marshal_annotations a =
     JObject [(''org.opencontainers.image.ref.name'', JString (RefName a))]"

definition marshal_Manifest :: "Manifest \<Rightarrow> json" where
  "marshal_Manifest m = JObject [(''Annotations'', marshal_annotations (Annotations m))]"

definition marshal_Index :: "Index \<Rightarrow> json" where
  "marshal_Index index =
     JObject [(''Manifests'',
       (case Index.Manifests index of
          None \<Rightarrow> JNull
        | Some ms \<Rightarrow> JArray (map marshal_Manifest ms)))]"

subsection \<open>The \<^verbatim>\<open>manifests\<close> member of a document\<close>

text \<open>
  The reading of the specification's words "the top-level \<^verbatim>\<open>manifests\<close> field is present
  and non-null": the document is an object with a member that names the field
  \<^verbatim>\<open>manifests\<close> of \<^verbatim>\<open>ImageManifest\<close>, and the value of the last such member is not
  \<^verbatim>\<open>null\<close>. \<open>lastMember names f kvs\<close> is the value of the last member of \<open>kvs\<close> that
  names the field \<open>f\<close>.
\<close>

fun lastMember :: "string list \<Rightarrow> string \<Rightarrow> (string \<times> json) list \<Rightarrow> json option" where
  "lastMember names f [] = None"
| "lastMember names f ((k, v) # kvs) =
     (case lastMember names f kvs of
        Some w \<Rightarrow> Some w
      | None \<Rightarrow> if fieldByName names k = Some f then Some v else None)"

definition manifests_member :: "json \<Rightarrow> json option" where
  "manifests_member j =
     (case j of
        JObject kvs \<Rightarrow> lastMember ImageManifest_fields ''manifests'' kvs
      | _ \<Rightarrow> None)"

definition manifests_present :: "json \<Rightarrow> bool" where
  "manifests_present j =
     (case manifests_member j of
        None \<Rightarrow> False
      | Some v \<Rightarrow> v \<noteq> JNull)"

text \<open>
  Two documents that differ only in the declared media type: the same members in the
  same order, where a member that names the field \<^verbatim>\<open>mediaType\<close> may hold another string.
\<close>

fun isString :: "json \<Rightarrow> bool" where
  "isString (JString s) = True"
| "isString _ = False"

definition same_but_mediaType :: "json \<Rightarrow> json \<Rightarrow> bool" where
  "same_but_mediaType j j' =
     (case (j, j') of
        (JObject kvs, JObject kvs') \<Rightarrow>
          list_all2
            (\<lambda>(k, v) (k', v'). k = k' \<and>
               (v = v' \<or>
                fieldByName ImageManifest_fields k = Some ''mediaType'' \<and>
                isString v \<and> isString v'))
            kvs kvs'
      | _ \<Rightarrow> j = j')"

subsection \<open>Observations on a run\<close>

fun is_Destroy :: "('ref, 'src, 'img) call \<Rightarrow> bool" where
  "is_Destroy (Call_Destroy pc) = True"
| "is_Destroy _ = False"

subsection \<open>A library and endpoints to run the package on\<close>

text \<open>
  A library in which every operation succeeds: a locator parses when it has a colon, the
  registry serves the document \<open>doc\<close> for every image and reports the architecture \<open>a\<close>
  for every image it inspects. References and handles are strings.
\<close>

definition example_library :: "json option \<Rightarrow> string \<Rightarrow> (string, unit, string, string) library" where
  "example_library doc a =
     \<lparr>ParseImageName = (\<lambda>name. if CHR '':'' \<in> set name then Inr name
                                else Inl (LibraryError ''invalid image name'')),
      NewImageSource = (\<lambda>ref ctx. Inr (''source '' @ ref)),
      GetManifest = (\<lambda>src. Inr (''manifest of '' @ src, ''application/json'')),
      scan = (\<lambda>data. doc),
      ParseReference = (\<lambda>s. Inr (''docker:'' @ s)),
      NewImage = (\<lambda>ref ctx. Inr (''image '' @ ref)),
      Inspect = (\<lambda>img. Inr \<lparr>Architecture = a\<rparr>),
      NewPolicyContext_error = (\<lambda>policy. None),
      copy_Image = (\<lambda>pc destRef srcRef opts. None),
      src_systemContext = (\<lambda>opts. ()),
      dest_systemContext = (\<lambda>opts. ())\<rparr>"

definition example_options :: "string \<Rightarrow> string \<Rightarrow> string \<Rightarrow> CopyImageOptions" where
  "example_options src dest a =
     \<lparr>srcImage = \<lparr>srcImageOptions.imageName = src\<rparr>,
      destImage = \<lparr>destImageOptions.imageName = dest, dockerImage = \<lparr>arch = a\<rparr>\<rparr>\<rparr>"

definition flat_doc :: json where
  "flat_doc =
     JObject
      [(''schemaVersion'', JNumber ''2''),
       (''mediaType'', JString ''application/vnd.oci.image.manifest.v1+json''),
       (''config'', JObject [(''digest'', JString ''sha256:aa''), (''size'', JNumber ''1469'')]),
       (''layers'', JArray [])]"

definition index_doc :: "string \<Rightarrow> json" where
  "index_doc mt =
     JObject
      [(''schemaVersion'', JNumber ''2''),
       (''mediaType'', JString mt),
       (''manifests'',
        JArray
         [JObject
           [(''mediaType'', JString ''application/vnd.oci.image.manifest.v1+json''),
            (''digest'', JString ''sha256:bb''),
            (''size'', JNumber ''1469''),
            (''platform'',
             JObject [(''architecture'', JString ''arm64''), (''os'', JString ''linux'')])]])]"


section \<open>Properties\<close>

subsection \<open>Evaluating the examples\<close>

lemmas decode_defs = decode_ImageManifest_def store_struct_def ImageManifest_fields_def
  ImageManifest_store_def ManifestEntry_fields_def ManifestEntry_store_def
  PlatformDetails_fields_def PlatformDetails_store_def store_slice_ManifestEntry_def
  store_string_def store_int_def ParseInt_def digit_def fieldByName_def toUpper_def
  zero_ImageManifest_def zero_ManifestEntry_def zero_PlatformDetails_def valueKind_def

lemmas Check_defs = Check_def Check_flat_def Check_inspect_def called_def deferred_def Let_def

lemmas Copy_defs = Copy_def Copy_body_def getPolicyContext_def NewPolicyContext_def
  called_def deferred_def Let_def

lemma decode_flat_doc:
  "decode_ImageManifest flat_doc =
     Inr \<lparr>ImageManifest.Manifests = None,
          MediaType = ''application/vnd.oci.image.manifest.v1+json'', SchemaVersion = 2\<rparr>"
  by (simp add: flat_doc_def decode_defs)

lemma decode_index_doc:
  "decode_ImageManifest (index_doc mt) =
     Inr \<lparr>ImageManifest.Manifests =
            Some [\<lparr>Digest = ''sha256:bb'',
                   Entry_MediaType = ''application/vnd.oci.image.manifest.v1+json'',
                   Platform = \<lparr>PlatformDetails.Architecture = ''arm64'', OS = ''linux'',
                               Variant = []\<rparr>,
                   Size = 1469\<rparr>],
          MediaType = mt, SchemaVersion = 2\<rparr>"
  by (simp add: index_doc_def decode_defs)

lemma Split_docker_locator:
  "strings_Split ''docker://reg.example.com/app:v1'' ''//'' =
     [''docker:'', ''reg.example.com/app:v1'']"
  by (simp add: strings_Split_def genSplit.simps)

lemma strings_Split_no_separator:
  "sep \<noteq> [] \<Longrightarrow> strings_Index s sep = None \<Longrightarrow> strings_Split s sep = [s]"
  by (simp add: strings_Split_def genSplit.simps)

subsection \<open>The flat branch of \<^verbatim>\<open>Check\<close>\<close>

text \<open>
  C1. When the manifest of the source is fetched and decodes with a nil \<^verbatim>\<open>Manifests\<close>
  (the \<^verbatim>\<open>manifests\<close> member null or absent), and every later step succeeds (the locator
  has a piece after its first \<^verbatim>\<open>//\<close>, the derived reference parses, the image opens and
  is inspected), then \<^verbatim>\<open>Check\<close> returns \<^verbatim>\<open>(true, nil)\<close> exactly when the inspected
  architecture equals the architecture configured on the destination, and
  \<^verbatim>\<open>(false, nil)\<close> exactly when the two differ.
\<close>

theorem Check_flat_compares_architecture:
  assumes "ParseImageName lib (srcImageOptions.imageName (srcImage c)) = Inr srcRef"
    and "NewImageSource lib srcRef (src_systemContext lib (srcImage c)) = Inr src"
    and "GetManifest lib src = Inr (manifestData, mimeType)"
    and "json_Unmarshal (scan lib) manifestData = Inr manifest"
    and "ImageManifest.Manifests manifest = None"
    and "1 < length (strings_Split (srcImageOptions.imageName (srcImage c)) ''//'')"
    and "ParseReference lib
           (''//'' @ strings_Split (srcImageOptions.imageName (srcImage c)) ''//'' ! 1) = Inr ref"
    and "NewImage lib ref (src_systemContext lib (srcImage c)) = Inr img"
    and "Inspect lib img = Inr inspectedImage"
  shows "(fst (Check lib c) = Returned True None \<longleftrightarrow>
            ImageInspectInfo.Architecture inspectedImage = arch (dockerImage (destImage c))) \<and>
         (fst (Check lib c) = Returned False None \<longleftrightarrow>
            ImageInspectInfo.Architecture inspectedImage \<noteq> arch (dockerImage (destImage c)))"
proof -
  from assms(5) have flat: "shapeOf manifest = FlatShape"
    by (simp add: shapeOf_def)
  have "fst (Check lib c) = fst (Check_flat lib c (src_systemContext lib (srcImage c)))"
    using assms(1-4) flat by (simp add: Check_def called_def Let_def)
  also have "\<dots> = fst (Check_inspect lib c img)"
    using assms(6-8) by (simp add: Check_flat_def called_def deferred_def Let_def)
  also have "\<dots> =
      (if ImageInspectInfo.Architecture inspectedImage \<noteq> arch (dockerImage (destImage c))
       then Returned False None else Returned True None)"
    using assms(9) by (simp add: Check_inspect_def called_def)
  finally show ?thesis by simp
qed

theorem Check_flat_compares_architecture_witness:
  "fst (Check (example_library (Some flat_doc) ''amd64'')
         (example_options ''docker://reg.example.com/app:v1''
            ''docker://mirror.example.com/app:v1'' ''amd64'')) = Returned True None \<and>
   fst (Check (example_library (Some flat_doc) ''amd64'')
         (example_options ''docker://reg.example.com/app:v1''
            ''docker://mirror.example.com/app:v1'' ''arm64'')) = Returned False None"
proof -
  let ?lib = "example_library (Some flat_doc) ''amd64''"
  let ?name = "''docker://reg.example.com/app:v1''"
  have run: "ParseImageName ?lib ?name = Inr ?name"
    "NewImageSource ?lib ?name () = Inr (''source '' @ ?name)"
    "GetManifest ?lib (''source '' @ ?name) =
       Inr (''manifest of source '' @ ?name, ''application/json'')"
    "json_Unmarshal (scan ?lib) (''manifest of source '' @ ?name) =
       Inr \<lparr>ImageManifest.Manifests = None,
            MediaType = ''application/vnd.oci.image.manifest.v1+json'', SchemaVersion = 2\<rparr>"
    "ParseReference ?lib (''//'' @ strings_Split ?name ''//'' ! 1) =
       Inr ''docker://reg.example.com/app:v1''"
    "NewImage ?lib ''docker://reg.example.com/app:v1'' () =
       Inr ''image docker://reg.example.com/app:v1''"
    "Inspect ?lib ''image docker://reg.example.com/app:v1'' =
       Inr \<lparr>ImageInspectInfo.Architecture = ''amd64''\<rparr>"
    by (simp_all add: example_library_def json_Unmarshal_def decode_flat_doc
          Split_docker_locator)
  have len: "1 < length (strings_Split ?name ''//'')"
    by (simp add: Split_docker_locator)
  show ?thesis
    using
      Check_flat_compares_architecture [of ?lib
        "example_options ?name ''docker://mirror.example.com/app:v1'' ''amd64''"
        ?name "''source '' @ ?name" "''manifest of source '' @ ?name" "''application/json''"
        "\<lparr>ImageManifest.Manifests = None,
          MediaType = ''application/vnd.oci.image.manifest.v1+json'', SchemaVersion = 2\<rparr>"
        "''docker://reg.example.com/app:v1''" "''image docker://reg.example.com/app:v1''"
        "\<lparr>ImageInspectInfo.Architecture = ''amd64''\<rparr>"]
      Check_flat_compares_architecture [of ?lib
        "example_options ?name ''docker://mirror.example.com/app:v1'' ''arm64''"
        ?name "''source '' @ ?name" "''manifest of source '' @ ?name" "''application/json''"
        "\<lparr>ImageManifest.Manifests = None,
          MediaType = ''application/vnd.oci.image.manifest.v1+json'', SchemaVersion = 2\<rparr>"
        "''docker://reg.example.com/app:v1''" "''image docker://reg.example.com/app:v1''"
        "\<lparr>ImageInspectInfo.Architecture = ''amd64''\<rparr>"]
      run len
    by (simp add: example_options_def)
qed

subsection \<open>The index branch of \<^verbatim>\<open>Check\<close>\<close>

text \<open>
  C3. When the manifest of the source is fetched and decodes with a \<^verbatim>\<open>Manifests\<close> list
  that is not nil, \<^verbatim>\<open>Check\<close> returns \<^verbatim>\<open>(true, nil)\<close> whatever architecture \<open>a\<close> is
  configured on the destination. Its calls end with the decoding: it parses no derived
  reference, opens no image and inspects none, and it compares no entry.
\<close>

theorem Check_index_is_compatible:
  assumes "ParseImageName lib (srcImageOptions.imageName (srcImage c)) = Inr srcRef"
    and "NewImageSource lib srcRef (src_systemContext lib (srcImage c)) = Inr src"
    and "GetManifest lib src = Inr (manifestData, mimeType)"
    and "json_Unmarshal (scan lib) manifestData = Inr manifest"
    and "ImageManifest.Manifests manifest \<noteq> None"
  shows "Check lib (c\<lparr>destImage := (destImage c)\<lparr>dockerImage := \<lparr>arch = a\<rparr>\<rparr>\<rparr>) =
           (Returned True None,
            [Call_ParseImageName (srcImageOptions.imageName (srcImage c)),
             Call_NewImageSource srcRef, Call_GetManifest src, Call_Unmarshal manifestData])"
  using assms by (auto simp: Check_def called_def shapeOf_def)

theorem Check_index_is_compatible_witness:
  "Check (example_library (Some (index_doc ''application/vnd.oci.image.index.v1+json'')) ''arm64'')
     (example_options ''docker://reg.example.com/app:v1''
        ''docker://mirror.example.com/app:v1'' ''s390x'') =
   (Returned True None,
    [Call_ParseImageName ''docker://reg.example.com/app:v1'',
     Call_NewImageSource ''docker://reg.example.com/app:v1'',
     Call_GetManifest ''source docker://reg.example.com/app:v1'',
     Call_Unmarshal ''manifest of source docker://reg.example.com/app:v1''])"
proof -
  let ?lib = "example_library (Some (index_doc ''application/vnd.oci.image.index.v1+json'')) ''arm64''"
  let ?name = "''docker://reg.example.com/app:v1''"
  let ?c = "example_options ?name ''docker://mirror.example.com/app:v1'' ''amd64''"
  let ?m = "\<lparr>ImageManifest.Manifests =
            Some [\<lparr>Digest = ''sha256:bb'',
                   Entry_MediaType = ''application/vnd.oci.image.manifest.v1+json'',
                   Platform = \<lparr>PlatformDetails.Architecture = ''arm64'', OS = ''linux'',
                               Variant = []\<rparr>,
                   Size = 1469\<rparr>],
          MediaType = ''application/vnd.oci.image.index.v1+json'', SchemaVersion = 2\<rparr>"
  have run: "ParseImageName ?lib (srcImageOptions.imageName (srcImage ?c)) = Inr ?name"
    "NewImageSource ?lib ?name (src_systemContext ?lib (srcImage ?c)) = Inr (''source '' @ ?name)"
    "GetManifest ?lib (''source '' @ ?name) =
       Inr (''manifest of source '' @ ?name, ''application/json'')"
    "json_Unmarshal (scan ?lib) (''manifest of source '' @ ?name) = Inr ?m"
    "ImageManifest.Manifests ?m \<noteq> None"
    by (simp_all add: example_library_def example_options_def json_Unmarshal_def
          decode_index_doc)
  show ?thesis
    using Check_index_is_compatible [OF run, of "''s390x''"]
    by (simp add: example_options_def)
qed

subsection \<open>A manifest that does not decode\<close>

text \<open>
  C7. When the manifest bytes are fetched and \<^verbatim>\<open>json.Unmarshal\<close> fails on them (they are
  not a JSON text, or a member has the wrong kind for its field), \<^verbatim>\<open>Check\<close> returns
  \<^verbatim>\<open>false\<close> with the error of the decoder, and its calls end with the decoding: no
  reference is derived, no image is opened or inspected.
\<close>

theorem Check_decode_error:
  assumes "ParseImageName lib (srcImageOptions.imageName (srcImage c)) = Inr srcRef"
    and "NewImageSource lib srcRef (src_systemContext lib (srcImage c)) = Inr src"
    and "GetManifest lib src = Inr (manifestData, mimeType)"
    and "json_Unmarshal (scan lib) manifestData = Inl err"
  shows "Check lib c =
           (Returned False (Some err),
            [Call_ParseImageName (srcImageOptions.imageName (srcImage c)),
             Call_NewImageSource srcRef, Call_GetManifest src, Call_Unmarshal manifestData])"
  using assms by (simp add: Check_def called_def)

theorem Check_decode_error_witness:
  "Check (example_library None ''amd64'')
     (example_options ''docker://reg.example.com/app:v1''
        ''docker://mirror.example.com/app:v1'' ''amd64'') =
   (Returned False (Some SyntaxError),
    [Call_ParseImageName ''docker://reg.example.com/app:v1'',
     Call_NewImageSource ''docker://reg.example.com/app:v1'',
     Call_GetManifest ''source docker://reg.example.com/app:v1'',
     Call_Unmarshal ''manifest of source docker://reg.example.com/app:v1'']) \<and>
   Check (example_library (Some (JObject [(''manifests'', JString ''none'')])) ''amd64'')
     (example_options ''docker://reg.example.com/app:v1''
        ''docker://mirror.example.com/app:v1'' ''amd64'') =
   (Returned False (Some (UnmarshalTypeError ''string'')),
    [Call_ParseImageName ''docker://reg.example.com/app:v1'',
     Call_NewImageSource ''docker://reg.example.com/app:v1'',
     Call_GetManifest ''source docker://reg.example.com/app:v1'',
     Call_Unmarshal ''manifest of source docker://reg.example.com/app:v1''])"
proof -
  let ?name = "''docker://reg.example.com/app:v1''"
  let ?c = "example_options ?name ''docker://mirror.example.com/app:v1'' ''amd64''"
  let ?lib1 = "example_library None ''amd64''"
  let ?lib2 = "example_library (Some (JObject [(''manifests'', JString ''none'')])) ''amd64''"
  have run1: "ParseImageName ?lib1 (srcImageOptions.imageName (srcImage ?c)) = Inr ?name"
    "NewImageSource ?lib1 ?name (src_systemContext ?lib1 (srcImage ?c)) = Inr (''source '' @ ?name)"
    "GetManifest ?lib1 (''source '' @ ?name) =
       Inr (''manifest of source '' @ ?name, ''application/json'')"
    "json_Unmarshal (scan ?lib1) (''manifest of source '' @ ?name) = Inl SyntaxError"
    by (simp_all add: example_library_def example_options_def json_Unmarshal_def)
  have run2: "ParseImageName ?lib2 (srcImageOptions.imageName (srcImage ?c)) = Inr ?name"
    "NewImageSource ?lib2 ?name (src_systemContext ?lib2 (srcImage ?c)) = Inr (''source '' @ ?name)"
    "GetManifest ?lib2 (''source '' @ ?name) =
       Inr (''manifest of source '' @ ?name, ''application/json'')"
    "json_Unmarshal (scan ?lib2) (''manifest of source '' @ ?name) =
       Inl (UnmarshalTypeError ''string'')"
    by (simp_all add: example_library_def example_options_def json_Unmarshal_def decode_defs)
  show ?thesis
    using Check_decode_error [OF run1] Check_decode_error [OF run2]
    by (simp add: example_options_def)
qed

subsection \<open>A locator without the separator\<close>

text \<open>
  C4. The specification has \<^verbatim>\<open>Check\<close> return an error when the locator parses, the
  manifest is flat and the locator has no \<^verbatim>\<open>//\<close>. The code indexes the result of
  \<^verbatim>\<open>strings.Split\<close> at \<open>1\<close> without looking at its length, and without a separator the
  result has one piece only: \<^verbatim>\<open>Check\<close> does not return, it panics, after the manifest was
  fetched and decoded.
\<close>

theorem Check_panics_without_separator:
  assumes "ParseImageName lib (srcImageOptions.imageName (srcImage c)) = Inr srcRef"
    and "NewImageSource lib srcRef (src_systemContext lib (srcImage c)) = Inr src"
    and "GetManifest lib src = Inr (manifestData, mimeType)"
    and "json_Unmarshal (scan lib) manifestData = Inr manifest"
    and "ImageManifest.Manifests manifest = None"
    and "strings_Index (srcImageOptions.imageName (srcImage c)) ''//'' = None"
  shows "Check lib c =
           (Panicked,
            [Call_ParseImageName (srcImageOptions.imageName (srcImage c)),
             Call_NewImageSource srcRef, Call_GetManifest src, Call_Unmarshal manifestData])"
  using assms by (simp add: Check_defs shapeOf_def strings_Split_no_separator)

theorem Check_panics_without_separator_witness:
  "Check (example_library (Some flat_doc) ''amd64'')
     (example_options ''oci:/tmp/images:v1'' ''docker://mirror.example.com/app:v1'' ''amd64'') =
   (Panicked,
    [Call_ParseImageName ''oci:/tmp/images:v1'',
     Call_NewImageSource ''oci:/tmp/images:v1'',
     Call_GetManifest ''source oci:/tmp/images:v1'',
     Call_Unmarshal ''manifest of source oci:/tmp/images:v1''])"
proof -
  let ?lib = "example_library (Some flat_doc) ''amd64''"
  let ?name = "''oci:/tmp/images:v1''"
  let ?c = "example_options ?name ''docker://mirror.example.com/app:v1'' ''amd64''"
  let ?m = "\<lparr>ImageManifest.Manifests = None,
            MediaType = ''application/vnd.oci.image.manifest.v1+json'', SchemaVersion = 2\<rparr>"
  have run: "ParseImageName ?lib (srcImageOptions.imageName (srcImage ?c)) = Inr ?name"
    "NewImageSource ?lib ?name (src_systemContext ?lib (srcImage ?c)) = Inr (''source '' @ ?name)"
    "GetManifest ?lib (''source '' @ ?name) =
       Inr (''manifest of source '' @ ?name, ''application/json'')"
    "json_Unmarshal (scan ?lib) (''manifest of source '' @ ?name) = Inr ?m"
    "ImageManifest.Manifests ?m = None"
    "strings_Index (srcImageOptions.imageName (srcImage ?c)) ''//'' = None"
    by (simp_all add: example_library_def example_options_def json_Unmarshal_def
          decode_flat_doc)
  show ?thesis
    using Check_panics_without_separator [OF run]
    by (simp add: example_options_def)
qed


subsection \<open>The pair that \<^verbatim>\<open>Check\<close> returns\<close>

text \<open>
  C9. \<^verbatim>\<open>Check\<close> never returns \<^verbatim>\<open>true\<close> together with an error: whenever it returns with
  an error the boolean is \<^verbatim>\<open>false\<close>, and whenever it returns \<^verbatim>\<open>true\<close> the error is
  \<^verbatim>\<open>nil\<close>.
\<close>

theorem Check_true_has_no_error:
  assumes "fst (Check lib c) = Returned b err"
  shows "(err \<noteq> None \<longrightarrow> b = False) \<and> (b = True \<longrightarrow> err = None)"
proof -
  have inspect: "fst (Check_inspect lib c img) \<noteq> Returned True (Some e)" for img e
    by (simp add: Check_inspect_def called_def split: sum.splits)
  have flat: "fst (Check_flat lib c ctx) \<noteq> Returned True (Some e)" for ctx e
    using inspect
    by (simp add: Check_flat_def called_def deferred_def Let_def split: sum.splits)
  have "fst (Check lib c) \<noteq> Returned True (Some e)" for e
    using flat
    by (simp add: Check_def called_def Let_def split: sum.splits prod.splits shape.splits)
  with assms show ?thesis by (cases b; cases err) auto
qed

theorem Check_true_has_no_error_witness:
  "fst (Check (example_library None ''amd64'')
          (example_options ''docker://reg.example.com/app:v1''
             ''docker://mirror.example.com/app:v1'' ''amd64'')) =
     Returned False (Some SyntaxError) \<and>
   fst (Check (example_library (Some flat_doc) ''amd64'')
          (example_options ''docker://reg.example.com/app:v1''
             ''docker://mirror.example.com/app:v1'' ''amd64'')) =
     Returned True None"
proof -
  let ?c = "example_options ''docker://reg.example.com/app:v1''
              ''docker://mirror.example.com/app:v1'' ''amd64''"
  have r1: "fst (Check (example_library None ''amd64'') ?c) = Returned False (Some SyntaxError)"
    by (simp add: Check_defs example_library_def example_options_def json_Unmarshal_def)
  have r2: "fst (Check (example_library (Some flat_doc) ''amd64'') ?c) = Returned True None"
    by (simp add: Check_defs example_library_def example_options_def json_Unmarshal_def
          decode_flat_doc shapeOf_def Split_docker_locator)
  show ?thesis
    using Check_true_has_no_error [OF r1] Check_true_has_no_error [OF r2] r1 r2
    by simp
qed

subsection \<open>The handles of \<^verbatim>\<open>Check\<close>\<close>

text \<open>
  C10. In every run of \<^verbatim>\<open>Check\<close> no image source is closed: the source that
  \<^verbatim>\<open>NewImageSource\<close> opened for the manifest is still open when \<^verbatim>\<open>Check\<close> returns. The
  image that \<^verbatim>\<open>NewImage\<close> opened on the flat branch is closed exactly once, and closing it
  is the last call of the run, whether the inspection succeeded or failed.
\<close>

theorem Check_closes_image_only:
  "(\<forall>src. Call_ImageSource_Close src \<notin> set (snd (Check lib c))) \<and>
   (\<forall>ref img.
      Call_NewImage ref \<in> set (snd (Check lib c)) \<and>
      NewImage lib ref (src_systemContext lib (srcImage c)) = Inr img \<longrightarrow>
      last (snd (Check lib c)) = Call_Image_Close img \<and>
      length (filter (\<lambda>e. e = Call_Image_Close img) (snd (Check lib c))) = 1)"
proof -
  let ?ctx = "src_systemContext lib (srcImage c)"
  have inspect: "snd (Check_inspect lib c img) = [Call_Inspect img]" for img
    by (simp add: Check_inspect_def called_def split: sum.splits)
  have flat_src: "Call_ImageSource_Close src \<notin> set (snd (Check_flat lib c ?ctx))" for src
    by (simp add: Check_flat_def called_def deferred_def Let_def inspect split: sum.splits)
  have flat_img:
    "last (snd (Check_flat lib c ?ctx)) = Call_Image_Close img \<and>
     length (filter (\<lambda>e. e = Call_Image_Close img) (snd (Check_flat lib c ?ctx))) = 1"
    if "Call_NewImage ref \<in> set (snd (Check_flat lib c ?ctx))"
      and "NewImage lib ref ?ctx = Inr img" for ref img
    using that
    by (auto simp: Check_flat_def called_def deferred_def Let_def inspect
          split: sum.splits if_splits)
  have no_src: "Call_ImageSource_Close src \<notin> set (snd (Check lib c))" for src
    using flat_src [of src]
    by (simp add: Check_def called_def Let_def split: sum.splits prod.splits shape.splits)
  have img: "last (snd (Check lib c)) = Call_Image_Close img \<and>
      length (filter (\<lambda>e. e = Call_Image_Close img) (snd (Check lib c))) = 1"
    if "Call_NewImage ref \<in> set (snd (Check lib c))"
      and "NewImage lib ref ?ctx = Inr img" for ref img
  proof -
    from that(1) have in_flat: "Call_NewImage ref \<in> set (snd (Check_flat lib c ?ctx))"
      by (auto simp: Check_def called_def Let_def
            split: sum.splits prod.splits shape.splits)
    then have ne: "snd (Check_flat lib c ?ctx) \<noteq> []"
      by auto
    from flat_img [OF in_flat that(2)] ne that(1) show ?thesis
      by (auto simp: Check_def called_def Let_def
            split: sum.splits prod.splits shape.splits)
  qed
  from no_src img show ?thesis by blast
qed

theorem Check_closes_image_only_witness:
  "Check (example_library (Some flat_doc) ''amd64'')
     (example_options ''docker://reg.example.com/app:v1''
        ''docker://mirror.example.com/app:v1'' ''arm64'') =
     (Returned False None,
      [Call_ParseImageName ''docker://reg.example.com/app:v1'',
       Call_NewImageSource ''docker://reg.example.com/app:v1'',
       Call_GetManifest ''source docker://reg.example.com/app:v1'',
       Call_Unmarshal ''manifest of source docker://reg.example.com/app:v1'',
       Call_ParseReference ''//reg.example.com/app:v1'',
       Call_NewImage ''docker://reg.example.com/app:v1'',
       Call_Inspect ''image docker://reg.example.com/app:v1'',
       Call_Image_Close ''image docker://reg.example.com/app:v1'']) \<and>
   fst (Check
     ((example_library (Some flat_doc) ''amd64'')
        \<lparr>Inspect := \<lambda>img. Inl (LibraryError ''config blob unknown'')\<rparr>)
     (example_options ''docker://reg.example.com/app:v1''
        ''docker://mirror.example.com/app:v1'' ''arm64'')) =
     Returned False (Some (LibraryError ''config blob unknown'')) \<and>
   last (snd (Check
     ((example_library (Some flat_doc) ''amd64'')
        \<lparr>Inspect := \<lambda>img. Inl (LibraryError ''config blob unknown'')\<rparr>)
     (example_options ''docker://reg.example.com/app:v1''
        ''docker://mirror.example.com/app:v1'' ''arm64''))) =
     Call_Image_Close ''image docker://reg.example.com/app:v1''"
proof -
  let ?lib = "example_library (Some flat_doc) ''amd64''"
  let ?fails = "?lib\<lparr>Inspect := \<lambda>img. Inl (LibraryError ''config blob unknown'')\<rparr>"
  let ?c = "example_options ''docker://reg.example.com/app:v1''
              ''docker://mirror.example.com/app:v1'' ''arm64''"
  let ?calls =
    "[Call_ParseImageName ''docker://reg.example.com/app:v1'',
      Call_NewImageSource ''docker://reg.example.com/app:v1'',
      Call_GetManifest ''source docker://reg.example.com/app:v1'',
      Call_Unmarshal ''manifest of source docker://reg.example.com/app:v1'',
      Call_ParseReference ''//reg.example.com/app:v1'',
      Call_NewImage ''docker://reg.example.com/app:v1'',
      Call_Inspect ''image docker://reg.example.com/app:v1'',
      Call_Image_Close ''image docker://reg.example.com/app:v1'']"
  have run: "Check ?lib ?c = (Returned False None, ?calls)"
    by (simp add: Check_defs example_library_def example_options_def json_Unmarshal_def
          decode_flat_doc shapeOf_def Split_docker_locator)
  have run': "Check ?fails ?c =
      (Returned False (Some (LibraryError ''config blob unknown'')), ?calls)"
    by (simp add: Check_defs example_library_def example_options_def json_Unmarshal_def
          decode_flat_doc shapeOf_def Split_docker_locator)
  have opened: "Call_NewImage ''docker://reg.example.com/app:v1'' \<in> set (snd (Check ?fails ?c))"
    by (simp add: run')
  have handle: "NewImage ?fails ''docker://reg.example.com/app:v1''
      (src_systemContext ?fails (srcImage ?c)) = Inr ''image docker://reg.example.com/app:v1''"
    by (simp add: example_library_def)
  from Check_closes_image_only [of ?fails ?c] opened handle
  have "last (snd (Check ?fails ?c)) = Call_Image_Close ''image docker://reg.example.com/app:v1''"
    by blast
  with run run' show ?thesis by simp
qed

subsection \<open>The policy context of \<^verbatim>\<open>Copy\<close>\<close>

text \<open>
  C5. When \<^verbatim>\<open>getPolicyContext\<close> gives a policy context, \<^verbatim>\<open>Copy\<close> destroys it exactly
  once, as the last call before it returns, on every path: when it succeeds, when the
  source or the destination locator does not parse, and when \<^verbatim>\<open>copy.Image\<close> fails. When
  \<^verbatim>\<open>getPolicyContext\<close> fails, \<^verbatim>\<open>Copy\<close> returns that error and destroys nothing.
\<close>

theorem Copy_destroys_policy_context_once:
  "(fst (getPolicyContext lib) = Inr policyContext \<longrightarrow>
      filter is_Destroy (snd (Copy lib c)) = [Call_Destroy policyContext] \<and>
      last (snd (Copy lib c)) = Call_Destroy policyContext) \<and>
   (fst (getPolicyContext lib) = Inl err \<longrightarrow>
      Copy lib c = (Some err, snd (getPolicyContext lib)) \<and>
      filter is_Destroy (snd (Copy lib c)) = [])"
proof -
  have body: "filter is_Destroy (snd (Copy_body lib c pc)) = []" for pc
    by (simp add: Copy_body_def called_def Let_def split: sum.splits option.splits)
  have acquire: "filter is_Destroy (snd (getPolicyContext lib)) = []"
    by (simp add: getPolicyContext_def called_def Let_def)
  show ?thesis
    using body [of policyContext] acquire
    by (cases "getPolicyContext lib")
       (auto simp: Copy_def deferred_def split: sum.splits prod.splits)
qed

theorem Copy_destroys_policy_context_once_witness:
  "filter is_Destroy
     (snd (Copy (example_library None ''amd64'')
        (example_options ''docker://reg.example.com/app:v1''
           ''docker://mirror.example.com/app:v1'' ''amd64''))) =
     [Call_Destroy \<lparr>Policy = \<lparr>Default = [PRInsecureAcceptAnything], Transports = Map.empty\<rparr>\<rparr>] \<and>
   filter is_Destroy
     (snd (Copy (example_library None ''amd64'')
        (example_options ''reg.example.com/app'' ''docker://mirror.example.com/app:v1''
           ''amd64''))) =
     [Call_Destroy \<lparr>Policy = \<lparr>Default = [PRInsecureAcceptAnything], Transports = Map.empty\<rparr>\<rparr>] \<and>
   filter is_Destroy
     (snd (Copy (example_library None ''amd64'')
        (example_options ''docker://reg.example.com/app:v1'' ''mirror.example.com/app''
           ''amd64''))) =
     [Call_Destroy \<lparr>Policy = \<lparr>Default = [PRInsecureAcceptAnything], Transports = Map.empty\<rparr>\<rparr>] \<and>
   filter is_Destroy
     (snd (Copy
        ((example_library None ''amd64'')
           \<lparr>copy_Image := \<lambda>pc destRef srcRef opts. Some (LibraryError ''unauthorized'')\<rparr>)
        (example_options ''docker://reg.example.com/app:v1''
           ''docker://mirror.example.com/app:v1'' ''amd64''))) =
     [Call_Destroy \<lparr>Policy = \<lparr>Default = [PRInsecureAcceptAnything], Transports = Map.empty\<rparr>\<rparr>] \<and>
   Copy
     ((example_library None ''amd64'')
        \<lparr>NewPolicyContext_error := \<lambda>policy. Some (LibraryError ''invalid policy'')\<rparr>)
     (example_options ''docker://reg.example.com/app:v1''
        ''docker://mirror.example.com/app:v1'' ''amd64'') =
     (Some (LibraryError ''invalid policy''),
      [Call_NewPolicyContext \<lparr>Default = [PRInsecureAcceptAnything], Transports = Map.empty\<rparr>])"
proof -
  let ?lib = "example_library None ''amd64''"
  let ?fails = "?lib\<lparr>copy_Image := \<lambda>pc destRef srcRef opts. Some (LibraryError ''unauthorized'')\<rparr>"
  let ?nopc = "?lib\<lparr>NewPolicyContext_error := \<lambda>policy. Some (LibraryError ''invalid policy'')\<rparr>"
  let ?pc = "\<lparr>Policy = \<lparr>Default = [PRInsecureAcceptAnything], Transports = Map.empty\<rparr>\<rparr>"
  have pc: "fst (getPolicyContext ?lib) = Inr ?pc" "fst (getPolicyContext ?fails) = Inr ?pc"
    by (simp_all add: getPolicyContext_def NewPolicyContext_def called_def Let_def
          NewPRInsecureAcceptAnything_def example_library_def)
  have nopc: "fst (getPolicyContext ?nopc) = Inl (LibraryError ''invalid policy'')"
    "snd (getPolicyContext ?nopc) =
       [Call_NewPolicyContext \<lparr>Default = [PRInsecureAcceptAnything], Transports = Map.empty\<rparr>]"
    by (simp_all add: getPolicyContext_def NewPolicyContext_def called_def Let_def
          NewPRInsecureAcceptAnything_def example_library_def)
  show ?thesis
    using
      Copy_destroys_policy_context_once [of ?lib ?pc
        "example_options ''docker://reg.example.com/app:v1''
           ''docker://mirror.example.com/app:v1'' ''amd64''"]
      Copy_destroys_policy_context_once [of ?lib ?pc
        "example_options ''reg.example.com/app'' ''docker://mirror.example.com/app:v1''
           ''amd64''"]
      Copy_destroys_policy_context_once [of ?lib ?pc
        "example_options ''docker://reg.example.com/app:v1'' ''mirror.example.com/app''
           ''amd64''"]
      Copy_destroys_policy_context_once [of ?fails ?pc
        "example_options ''docker://reg.example.com/app:v1''
           ''docker://mirror.example.com/app:v1'' ''amd64''"]
      Copy_destroys_policy_context_once [of ?nopc _ _ "LibraryError ''invalid policy''"]
      pc nopc
    by simp
qed

text \<open>
  C6. The only policy that \<^verbatim>\<open>Copy\<close> makes a policy context from has the default
  requirements \<^verbatim>\<open>[NewPRInsecureAcceptAnything()]\<close>, one element, and no requirements for
  single transports; the context that \<^verbatim>\<open>copy.Image\<close> receives is the one made from it.
  Under that context every image of every transport and scope is allowed, whatever the
  signature verifier \<open>verify\<close> would say: no signature is verified and no image is
  rejected for its signatures.
\<close>

theorem Copy_policy_accepts_anything:
  "(Call_NewPolicyContext policy \<in> set (snd (Copy lib c)) \<longrightarrow>
      policy = \<lparr>Default = [PRInsecureAcceptAnything], Transports = Map.empty\<rparr>) \<and>
   (Call_copy_Image pc destRef srcRef \<in> set (snd (Copy lib c)) \<longrightarrow>
      fst (getPolicyContext lib) = Inr pc \<and>
      Default (Policy pc) = [PRInsecureAcceptAnything] \<and>
      length (Default (Policy pc)) = 1 \<and>
      requirementsForImageRef pc transport scopes = [PRInsecureAcceptAnything] \<and>
      IsRunningImageAllowed verify pc transport scopes img)"
proof -
  let ?policy = "\<lparr>Default = [PRInsecureAcceptAnything], Transports = Map.empty\<rparr>"
  have acquire: "snd (getPolicyContext lib) = [Call_NewPolicyContext ?policy]"
    and made: "fst (getPolicyContext lib) = Inr pc' \<Longrightarrow> pc' = \<lparr>Policy = ?policy\<rparr>" for pc'
    by (simp_all add: getPolicyContext_def NewPolicyContext_def called_def Let_def
          NewPRInsecureAcceptAnything_def split: option.splits)
  have allowed: "requirementsForImageRef \<lparr>Policy = ?policy\<rparr> transport scopes =
        [PRInsecureAcceptAnything] \<and>
      IsRunningImageAllowed verify \<lparr>Policy = ?policy\<rparr> transport scopes img"
    by (simp add: IsRunningImageAllowed_def requirementsForImageRef_def
          isRunningImageAllowed_def)
  have body_new: "Call_NewPolicyContext policy \<notin> set (snd (Copy_body lib c pc'))" for pc'
    by (simp add: Copy_body_def called_def Let_def split: sum.splits option.splits)
  have body_copy: "Call_copy_Image pc destRef srcRef \<in> set (snd (Copy_body lib c pc')) \<Longrightarrow> pc = pc'"
    for pc'
    by (simp add: Copy_body_def called_def Let_def split: sum.splits option.splits)
  show ?thesis
  proof (cases "fst (getPolicyContext lib)")
    case (Inl err)
    then have "snd (Copy lib c) = [Call_NewPolicyContext ?policy]"
      using acquire by (cases "getPolicyContext lib") (simp add: Copy_def)
    then show ?thesis by simp
  next
    case (Inr pc')
    then have run: "snd (Copy lib c) =
        Call_NewPolicyContext ?policy # snd (Copy_body lib c pc') @ [Call_Destroy pc']"
      using acquire
      by (cases "getPolicyContext lib") (simp add: Copy_def deferred_def split: prod.splits)
    from made [OF Inr] have pc': "pc' = \<lparr>Policy = ?policy\<rparr>" .
    show ?thesis
      using run body_new [of pc'] body_copy [of pc'] Inr allowed pc'
      by auto
  qed
qed

theorem Copy_policy_accepts_anything_witness:
  "Call_copy_Image \<lparr>Policy = \<lparr>Default = [PRInsecureAcceptAnything], Transports = Map.empty\<rparr>\<rparr>
      ''docker://mirror.example.com/app:v1'' ''docker://reg.example.com/app:v1''
     \<in> set (snd (Copy (example_library None ''amd64'')
          (example_options ''docker://reg.example.com/app:v1''
             ''docker://mirror.example.com/app:v1'' ''amd64''))) \<and>
   IsRunningImageAllowed (\<lambda>req img. False)
     \<lparr>Policy = \<lparr>Default = [PRInsecureAcceptAnything], Transports = Map.empty\<rparr>\<rparr>
     ''docker'' [''reg.example.com/app:v1'', ''reg.example.com/app'', ''reg.example.com'']
     ''an unsigned image''"
proof -
  let ?lib = "example_library None ''amd64''"
  let ?c = "example_options ''docker://reg.example.com/app:v1''
              ''docker://mirror.example.com/app:v1'' ''amd64''"
  let ?pc = "\<lparr>Policy = \<lparr>Default = [PRInsecureAcceptAnything], Transports = Map.empty\<rparr>\<rparr>"
  have copied: "Call_copy_Image ?pc ''docker://mirror.example.com/app:v1''
      ''docker://reg.example.com/app:v1'' \<in> set (snd (Copy ?lib ?c))"
    by (simp add: Copy_defs NewPRInsecureAcceptAnything_def example_library_def
          example_options_def)
  with Copy_policy_accepts_anything [of _ ?lib ?c ?pc "''docker://mirror.example.com/app:v1''"
      "''docker://reg.example.com/app:v1''" "''docker''"
      "[''reg.example.com/app:v1'', ''reg.example.com/app'', ''reg.example.com'']"
      "\<lambda>req img. False" "''an unsigned image''"]
  show ?thesis by blast
qed

subsection \<open>The shape of a manifest\<close>

lemma fieldByName_in_names: "fieldByName names k = Some f \<Longrightarrow> f \<in> set names"
  by (auto simp: fieldByName_def find_Some_iff split: if_splits)

lemma ImageManifest_store_Manifests:
  assumes "ImageManifest_store f v m0 = Inr m1"
  shows "(ImageManifest.Manifests m1 = None) =
           (if f = ''manifests'' then v = JNull else ImageManifest.Manifests m0 = None)"
  using assms
  by (auto simp: ImageManifest_store_def store_slice_ManifestEntry_def
        split: if_splits sum.splits json.splits)

lemma object_Manifests:
  assumes "object ImageManifest_fields ImageManifest_store kvs m0 = Inr m"
  shows "(ImageManifest.Manifests m = None) =
           (case lastMember ImageManifest_fields ''manifests'' kvs of
              None \<Rightarrow> ImageManifest.Manifests m0 = None
            | Some v \<Rightarrow> v = JNull)"
  using assms
proof (induction kvs arbitrary: m0)
  case Nil
  then show ?case by simp
next
  case (Cons kv kvs)
  obtain k v where kv: "kv = (k, v)" by (cases kv)
  show ?case
  proof (cases "fieldByName ImageManifest_fields k")
    case None
    with Cons.prems kv have "object ImageManifest_fields ImageManifest_store kvs m0 = Inr m"
      by simp
    from Cons.IH [OF this] None kv show ?thesis
      by (simp split: option.splits)
  next
    case (Some f)
    with Cons.prems kv obtain m1 where
      m1: "ImageManifest_store f v m0 = Inr m1"
      and rest: "object ImageManifest_fields ImageManifest_store kvs m1 = Inr m"
      by (auto split: sum.splits)
    from Cons.IH [OF rest] ImageManifest_store_Manifests [OF m1] Some kv show ?thesis
      by (auto split: option.splits)
  qed
qed

lemma ImageManifest_store_same_but_mediaType:
  assumes "ImageManifest.Manifests m0 = ImageManifest.Manifests m0'"
    and "SchemaVersion m0 = SchemaVersion m0'"
    and "v = v' \<or> f = ''mediaType'' \<and> isString v \<and> isString v'"
  shows "rel_sum (=)
           (\<lambda>m m'. ImageManifest.Manifests m = ImageManifest.Manifests m' \<and>
              SchemaVersion m = SchemaVersion m')
           (ImageManifest_store f v m0) (ImageManifest_store f v' m0')"
proof (cases "v = v'")
  case True
  with assms(1,2) show ?thesis
    by (auto simp: ImageManifest_store_def store_slice_ManifestEntry_def store_string_def
          store_int_def split: json.splits sum.splits option.splits)
next
  case False
  with assms(3) obtain s s' where "f = ''mediaType''" "v = JString s" "v' = JString s'"
    by (cases v; cases v') auto
  with assms(1,2) show ?thesis
    by (simp add: ImageManifest_store_def store_string_def)
qed

lemma object_same_but_mediaType:
  assumes "list_all2
            (\<lambda>(k, v) (k', v'). k = k' \<and>
               (v = v' \<or>
                fieldByName ImageManifest_fields k = Some ''mediaType'' \<and>
                isString v \<and> isString v'))
            kvs kvs'"
    and "ImageManifest.Manifests m0 = ImageManifest.Manifests m0'"
    and "SchemaVersion m0 = SchemaVersion m0'"
  shows "rel_sum (=)
           (\<lambda>m m'. ImageManifest.Manifests m = ImageManifest.Manifests m' \<and>
              SchemaVersion m = SchemaVersion m')
           (object ImageManifest_fields ImageManifest_store kvs m0)
           (object ImageManifest_fields ImageManifest_store kvs' m0')"
  using assms
proof (induction kvs kvs' arbitrary: m0 m0' rule: list_all2_induct)
  case Nil
  then show ?case by simp
next
  case (Cons kv kvs kv' kvs')
  obtain k v v' where kv: "kv = (k, v)" "kv' = (k, v')"
    and vv': "v = v' \<or>
      fieldByName ImageManifest_fields k = Some ''mediaType'' \<and> isString v \<and> isString v'"
    using Cons.hyps(1) by (cases kv; cases kv') auto
  show ?case
  proof (cases "fieldByName ImageManifest_fields k")
    case None
    with kv Cons.IH [OF Cons.prems] show ?thesis by simp
  next
    case (Some f)
    with vv' have "v = v' \<or> f = ''mediaType'' \<and> isString v \<and> isString v'"
      by auto
    from ImageManifest_store_same_but_mediaType [OF Cons.prems this]
    show ?thesis
      using Some kv Cons.IH
      by (cases "ImageManifest_store f v m0"; cases "ImageManifest_store f v' m0'") auto
  qed
qed

lemma decode_same_but_mediaType:
  assumes "same_but_mediaType j j'"
  shows "map_sum id shapeOf (decode_ImageManifest j') = map_sum id shapeOf (decode_ImageManifest j)"
proof (cases "\<exists>kvs kvs'. j = JObject kvs \<and> j' = JObject kvs'")
  case True
  then obtain kvs kvs' where j: "j = JObject kvs" "j' = JObject kvs'"
    by blast
  with assms have "rel_sum (=)
           (\<lambda>m m'. ImageManifest.Manifests m = ImageManifest.Manifests m' \<and>
              SchemaVersion m = SchemaVersion m')
           (object ImageManifest_fields ImageManifest_store kvs zero_ImageManifest)
           (object ImageManifest_fields ImageManifest_store kvs' zero_ImageManifest)"
    by (intro object_same_but_mediaType) (simp_all add: same_but_mediaType_def)
  then show ?thesis
    using j
    by (cases "object ImageManifest_fields ImageManifest_store kvs zero_ImageManifest";
        cases "object ImageManifest_fields ImageManifest_store kvs' zero_ImageManifest")
       (auto simp: decode_ImageManifest_def store_struct_def shapeOf_def)
next
  case False
  with assms have "j' = j"
    by (cases j; cases j') (auto simp: same_but_mediaType_def)
  then show ?thesis by simp
qed

text \<open>
  C2. For manifest bytes that are a JSON text \<open>j\<close>: when they decode, the manifest takes
  the index branch exactly when \<open>j\<close> has a \<^verbatim>\<open>manifests\<close> member that is not null, and
  the flat branch otherwise. A second text \<open>j'\<close> that differs from \<open>j\<close> only in its
  declared \<^verbatim>\<open>mediaType\<close> string has the same outcome: the same decoding error, or the
  same shape.
\<close>

theorem shape_is_decided_by_manifests_member:
  assumes "scanner data = Some j"
  shows "(json_Unmarshal scanner data = Inr manifest \<longrightarrow>
            (shapeOf manifest = IndexShape \<longleftrightarrow> manifests_present j) \<and>
            (shapeOf manifest = FlatShape \<longleftrightarrow> \<not> manifests_present j)) \<and>
         (scanner data' = Some j' \<and> same_but_mediaType j j' \<longrightarrow>
            map_sum id shapeOf (json_Unmarshal scanner data') =
            map_sum id shapeOf (json_Unmarshal scanner data))"
proof -
  have "shapeOf manifest = IndexShape \<longleftrightarrow> manifests_present j"
    if dec: "decode_ImageManifest j = Inr manifest"
  proof (cases j)
    case (JObject kvs)
    with dec have "object ImageManifest_fields ImageManifest_store kvs zero_ImageManifest =
        Inr manifest"
      by (simp add: decode_ImageManifest_def store_struct_def)
    from object_Manifests [OF this] JObject show ?thesis
      by (auto simp: shapeOf_def manifests_present_def manifests_member_def
            zero_ImageManifest_def split: option.splits)
  next
    case JNull
    with dec show ?thesis
      by (auto simp: decode_ImageManifest_def store_struct_def shapeOf_def
            manifests_present_def manifests_member_def zero_ImageManifest_def)
  qed (use dec in \<open>simp_all add: decode_ImageManifest_def store_struct_def\<close>)
  moreover have "shapeOf manifest = FlatShape \<longleftrightarrow> shapeOf manifest \<noteq> IndexShape"
    by (cases "shapeOf manifest") simp_all
  ultimately show ?thesis
    using assms decode_same_but_mediaType [of j j']
    by (auto simp: json_Unmarshal_def)
qed

theorem shape_is_decided_by_manifests_member_witness:
  "json_Unmarshal (\<lambda>data. if data = ''index'' then Some (index_doc ''text/plain'')
       else Some (index_doc ''application/vnd.oci.image.manifest.v1+json'')) ''index'' =
     Inr \<lparr>ImageManifest.Manifests =
            Some [\<lparr>Digest = ''sha256:bb'',
                   Entry_MediaType = ''application/vnd.oci.image.manifest.v1+json'',
                   Platform = \<lparr>PlatformDetails.Architecture = ''arm64'', OS = ''linux'',
                               Variant = []\<rparr>,
                   Size = 1469\<rparr>],
          MediaType = ''text/plain'', SchemaVersion = 2\<rparr> \<and>
   manifests_present (index_doc ''text/plain'') \<and>
   map_sum id shapeOf
     (json_Unmarshal (\<lambda>data. if data = ''index'' then Some (index_doc ''text/plain'')
        else Some (index_doc ''application/vnd.oci.image.manifest.v1+json'')) ''other'') =
     Inr IndexShape"
proof -
  let ?scan = "\<lambda>data. if data = ''index'' then Some (index_doc ''text/plain'')
       else Some (index_doc ''application/vnd.oci.image.manifest.v1+json'')"
  let ?m = "\<lparr>ImageManifest.Manifests =
            Some [\<lparr>Digest = ''sha256:bb'',
                   Entry_MediaType = ''application/vnd.oci.image.manifest.v1+json'',
                   Platform = \<lparr>PlatformDetails.Architecture = ''arm64'', OS = ''linux'',
                               Variant = []\<rparr>,
                   Size = 1469\<rparr>],
          MediaType = ''text/plain'', SchemaVersion = 2\<rparr>"
  have scans: "?scan ''index'' = Some (index_doc ''text/plain'')"
    "?scan ''other'' = Some (index_doc ''application/vnd.oci.image.manifest.v1+json'')"
    by simp_all
  have dec: "json_Unmarshal ?scan ''index'' = Inr ?m"
    by (simp add: json_Unmarshal_def decode_index_doc)
  have same: "same_but_mediaType (index_doc ''text/plain'')
      (index_doc ''application/vnd.oci.image.manifest.v1+json'')"
    by (simp add: same_but_mediaType_def index_doc_def fieldByName_def
          ImageManifest_fields_def toUpper_def)
  have shape: "shapeOf ?m = IndexShape"
    by (simp add: shapeOf_def)
  from shape_is_decided_by_manifests_member [of ?scan "''index''" "index_doc ''text/plain''"
      ?m "''other''" "index_doc ''application/vnd.oci.image.manifest.v1+json''"]
    scans dec same shape
  show ?thesis by simp
qed

subsection \<open>An index through the probe\<close>

lemma Annotations_names_no_field: "fieldByName ManifestEntry_fields ''Annotations'' = None"
  by (simp add: fieldByName_def ManifestEntry_fields_def toUpper_def)

lemma Manifests_names_manifests:
  "fieldByName ImageManifest_fields ''Manifests'' = Some ''manifests''"
  by (simp add: fieldByName_def ImageManifest_fields_def toUpper_def)

lemma array_marshal_Manifest:
  "array_ManifestEntry (map marshal_Manifest ms) = Inr (replicate (length ms) zero_ManifestEntry)"
  by (induction ms)
     (simp_all add: marshal_Manifest_def store_struct_def Annotations_names_no_field)

lemma decode_marshal_Index:
  "decode_ImageManifest (marshal_Index (append_Manifests NewIndex ms)) =
     Inr \<lparr>ImageManifest.Manifests = Some (replicate (length ms) zero_ManifestEntry),
          MediaType = [], SchemaVersion = 0\<rparr>"
  by (simp add: marshal_Index_def append_Manifests_def NewIndex_def decode_ImageManifest_def
        store_struct_def Manifests_names_manifests ImageManifest_store_def
        store_slice_ManifestEntry_def array_marshal_Manifest zero_ImageManifest_def)

text \<open>
  C8. An index that \<^verbatim>\<open>NewIndex\<close> made and to which at least one \<^verbatim>\<open>Manifest\<close> was appended
  is marshalled to a document of which every JSON text decodes through
  \<^verbatim>\<open>ImageManifest\<close> without an error and with a \<^verbatim>\<open>Manifests\<close> list that is not nil, one
  entry for each manifest of the index: the probe takes it for an index.
\<close>

theorem marshalled_Index_has_index_shape:
  assumes "ms \<noteq> []"
    and "scanner data = Some (marshal_Index (append_Manifests NewIndex ms))"
  shows "\<exists>manifest. json_Unmarshal scanner data = Inr manifest \<and>
           ImageManifest.Manifests manifest \<noteq> None \<and>
           map_option length (ImageManifest.Manifests manifest) = Some (length ms) \<and>
           shapeOf manifest = IndexShape"
  using assms(2) by (simp add: json_Unmarshal_def decode_marshal_Index shapeOf_def)

theorem marshalled_Index_has_index_shape_witness:
  "map_sum id shapeOf
     (json_Unmarshal
        (\<lambda>data. Some (JObject [(''Manifests'', JArray [JObject [(''Annotations'',
           JObject [(''org.opencontainers.image.ref.name'', JString ''app:v1'')])]])]))
        ''index.json'') =
   Inr IndexShape"
proof -
  let ?ms = "[\<lparr>Annotations = \<lparr>RefName = ''app:v1''\<rparr>\<rparr>]"
  let ?scan = "\<lambda>data :: string. Some (JObject [(''Manifests'', JArray [JObject [(''Annotations'',
        JObject [(''org.opencontainers.image.ref.name'', JString ''app:v1'')])]])])"
  have ne: "?ms \<noteq> []" by simp
  have doc: "?scan ''index.json'' = Some (marshal_Index (append_Manifests NewIndex ?ms))"
    by (simp add: marshal_Index_def append_Manifests_def NewIndex_def marshal_Manifest_def
          marshal_annotations_def)
  from marshalled_Index_has_index_shape [of ?ms ?scan "''index.json''"] ne doc
  obtain manifest where "json_Unmarshal ?scan ''index.json'' = Inr manifest"
    and "shapeOf manifest = IndexShape"
    by blast
  then show ?thesis by simp
qed

end
